theory Spec2Isabelle
  imports Main
begin

section \<open>Constraint expressions and solver instances\<close>

text \<open>
  The notebook builds its four puzzles from a handful of solver terms: integer
  variables \<^verbatim>\<open>Int(name)\<close>, integer literals, \<^verbatim>\<open>+\<close>, \<^verbatim>\<open>-\<close>, \<^verbatim>\<open>*\<close>, the comparisons
  \<^verbatim>\<open><=\<close>, \<^verbatim>\<open>==\<close>, \<^verbatim>\<open>!=\<close>, and the connectives \<^verbatim>\<open>And\<close>, \<^verbatim>\<open>Distinct\<close> and \<^verbatim>\<open>If\<close>.
  A Python \<^verbatim>\<open>True\<close> or a Python comparison of two Python integers that is handed to
  \<^verbatim>\<open>If\<close> is a Boolean literal of the term language (\<open>BoolVal\<close>).
\<close>

datatype arith =
    Int' string
  | IntVal int
  | Add arith arith
  | Sub arith arith
  | Mul arith arith

datatype formula =
    BoolVal bool
  | Le arith arith
  | Eq arith arith
  | Ne arith arith
  | And "formula list"
  | Distinct "arith list"
  | If formula formula formula

text \<open>A model maps every variable name to an integer.\<close>

type_synonym model = "string \<Rightarrow> int"

primrec eval :: "model \<Rightarrow> arith \<Rightarrow> int" where
  "eval m (Int' x) = m x"
| "eval m (IntVal n) = n"
| "eval m (Add a b) = eval m a + eval m b"
| "eval m (Sub a b) = eval m a - eval m b"
| "eval m (Mul a b) = eval m a * eval m b"

fun holds :: "model \<Rightarrow> formula \<Rightarrow> bool" where
  "holds m (BoolVal b) = b"
| "holds m (Le a b) = (eval m a \<le> eval m b)"
| "holds m (Eq a b) = (eval m a = eval m b)"
| "holds m (Ne a b) = (eval m a \<noteq> eval m b)"
| "holds m (And fs) = list_all (holds m) fs"
| "holds m (Distinct es) = distinct (map (eval m) es)"
| "holds m (If c a b) = (if holds m c then holds m a else holds m b)"

text \<open>
  A solver instance is the list of the assertions added so far; \<^verbatim>\<open>solver.add(...)\<close>
  appends its arguments. An assignment is a model of the instance when every assertion
  holds in it.
\<close>

type_synonym solver = "formula list"

definition Solver :: solver where
  "Solver = []"

definition add :: "solver \<Rightarrow> formula list \<Rightarrow> solver" where
  "add s fs = s @ fs"

definition models :: "model \<Rightarrow> solver \<Rightarrow> bool" where
  "models m s = list_all (holds m) s"

text \<open>
  Python list indexing, where a negative index counts from the end. Every index the
  notebook uses is in range.
\<close>

definition at :: "'a list \<Rightarrow> int \<Rightarrow> 'a" where
  "at xs i = (if i < 0 then xs ! nat (int (length xs) + i) else xs ! nat i)"

section \<open>Cryptarithmetic: TWO + TWO = FOUR\<close>

definition F :: arith where
  "F = Int' ''F''"

definition variables :: "string list" where
  "variables = [''O'', ''R'', ''T'', ''U'', ''W'']"

definition z3_vars :: "arith list" where
  "z3_vars = map Int' variables"

definition carry_1 :: arith where
  "carry_1 = Int' ''carry_1''"

definition carry_2 :: arith where
  "carry_2 = Int' ''carry_2''"

definition carry_3 :: arith where
  "carry_3 = Int' ''carry_3''"

text \<open>The range constraints of the first cell.\<close>

definition ca_domains :: solver where
  "ca_domains =
     add (add Solver [Le (IntVal 0) F, Le F (IntVal 9)])
         (concat (map (\<lambda>y. [Le (IntVal 0) y, Le y (IntVal 9)]) z3_vars))"

text \<open>
  The second cell: no leading zero, and the five inequalities the notebook adds under
  the comment ``Add a Distinct constraint for all the variables''.
\<close>

definition ca_assumptions :: "solver \<Rightarrow> solver" where
  "ca_assumptions s =
     add (add s [Ne (at z3_vars 2) (IntVal 0), Ne F (IntVal 0)])
         [Ne (at z3_vars 2) (at z3_vars (- 1)),
          Ne (at z3_vars (- 1)) (at z3_vars 0),
          Ne F (at z3_vars 0),
          Ne (at z3_vars 0) (at z3_vars (- 2)),
          Ne (at z3_vars (- 2)) (at z3_vars 1)]"

text \<open>The third cell: one equation per column, chained through the carries.\<close>

definition ca_columns :: "solver \<Rightarrow> solver" where
  "ca_columns s =
     add (add (add (add s
       [Eq (Add (Mul (at z3_vars 0) (IntVal 1)) (Mul (at z3_vars 0) (IntVal 1)))
           (Add (at z3_vars 1) (Mul carry_1 (IntVal 10)))])
       [Eq (Add (Add (Mul carry_1 (IntVal 10)) (Mul (at z3_vars (- 1)) (IntVal 10)))
                (Mul (at z3_vars (- 1)) (IntVal 10)))
           (Add (Mul (at z3_vars (- 2)) (IntVal 10)) (Mul carry_2 (IntVal 100)))])
       [Eq (Add (Mul carry_2 (IntVal 100))
                (Mul (Add (at z3_vars 2) (at z3_vars 2)) (IntVal 100)))
           (Add (Mul (at z3_vars 0) (IntVal 100)) (Mul carry_3 (IntVal 1000)))])
       [Eq carry_3 F]"

definition ca_solver :: solver where
  "ca_solver = ca_columns (ca_assumptions ca_domains)"

section \<open>Map coloring\<close>

text \<open>
  The palette, keyed as the notebook keys it, by the decimal string of the colour index.
\<close>

definition colors :: "string \<rightharpoonup> string" where
  "colors = [''0'' \<mapsto> ''Blue'', ''1'' \<mapsto> ''Red'', ''2'' \<mapsto> ''Green'']"

definition WA :: arith where
  "WA = Int' ''WA''"

definition SA :: arith where
  "SA = Int' ''SA''"

definition NT :: arith where
  "NT = Int' ''NT''"

definition Q :: arith where
  "Q = Int' ''Q''"

definition NSW :: arith where
  "NSW = Int' ''NSW''"

definition V :: arith where
  "V = Int' ''V''"

definition T :: arith where
  "T = Int' ''T''"

definition mc_domains :: solver where
  "mc_domains =
     add (add (add (add (add (add (add Solver
       [Le (IntVal 0) WA, Le WA (IntVal 2)])
       [Le (IntVal 0) SA, Le SA (IntVal 2)])
       [Le (IntVal 0) NT, Le NT (IntVal 2)])
       [Le (IntVal 0) Q, Le Q (IntVal 2)])
       [Le (IntVal 0) NSW, Le NSW (IntVal 2)])
       [Le (IntVal 0) V, Le V (IntVal 2)])
       [Le (IntVal 0) T, Le T (IntVal 2)]"

text \<open>
  The cell under the comment ``constraints to require adjacent regions to take distinct
  colors'': four calls, two inequalities each, \<^verbatim>\<open>NSW != SA\<close> in two of them.
\<close>

definition mc_adjacent :: "solver \<Rightarrow> solver" where
  "mc_adjacent s =
     add (add (add (add s
       [Ne WA SA, Ne WA NT])
       [Ne NT SA, Ne Q NT])
       [Ne NSW SA, Ne SA Q])
       [Ne NSW SA, Ne NSW V]"

definition mc_solver :: solver where
  "mc_solver = mc_adjacent mc_domains"

section \<open>N-Queens\<close>

text \<open>Python's \<^verbatim>\<open>range(n)\<close> over integers: empty when \<open>n \<le> 0\<close>.\<close>

definition range' :: "int \<Rightarrow> int list" where
  "range' n = [0..n - 1]"

text \<open>The format \<^verbatim>\<open>%i\<close>: the decimal digits of an integer, with a sign when negative.\<close>

fun digits :: "nat \<Rightarrow> string" where
  "digits n =
     (if n < 10 then [''0123456789'' ! n]
      else digits (n div 10) @ [''0123456789'' ! (n mod 10)])"

declare digits.simps [simp del]

definition fmt_i :: "int \<Rightarrow> string" where
  "fmt_i k = (if k < 0 then CHR ''-'' # digits (nat (- k)) else digits (nat k))"

text \<open>The variable list \<^verbatim>\<open>Q\<close> of \<^verbatim>\<open>nqueens(N)\<close>: \<^verbatim>\<open>Q_1\<close>, ..., \<^verbatim>\<open>Q_N\<close>.\<close>

definition nqueens_Q :: "int \<Rightarrow> arith list" where
  "nqueens_Q N = map (\<lambda>i. Int' (''Q_'' @ fmt_i (i + 1))) (range' N)"

definition val_c :: "int \<Rightarrow> arith list \<Rightarrow> formula list" where
  "val_c N Qs = map (\<lambda>i. And [Le (IntVal 1) (at Qs i), Le (at Qs i) (IntVal N)]) (range' N)"

definition col_c :: "arith list \<Rightarrow> formula list" where
  "col_c Qs = [Distinct Qs]"

definition diag_c :: "int \<Rightarrow> arith list \<Rightarrow> formula list" where
  "diag_c N Qs =
     concat (map (\<lambda>i. map (\<lambda>j.
       If (BoolVal (i = j))
          (BoolVal True)
          (And [Ne (Sub (at Qs i) (at Qs j)) (IntVal (i - j)),
                Ne (Sub (at Qs i) (at Qs j)) (IntVal (j - i))]))
       (range' i)) (range' N))"

definition nqueens :: "int \<Rightarrow> solver" where
  "nqueens N =
     (let Qs = nqueens_Q N
      in add Solver (val_c N Qs @ col_c Qs @ diag_c N Qs))"

section \<open>Sudoku\<close>

definition rows :: string where
  "rows = ''ABCDEFGHI''"

definition cols :: string where
  "cols = ''123456789''"

definition boxes :: "arith list list" where
  "boxes = map (\<lambda>r. map (\<lambda>c. Int' ([r] @ [c])) cols) rows"

text \<open>
  The cells of one column and of one 3-by-3 block, as the notebook's comprehensions list
  them (a row is \<^verbatim>\<open>boxes[i]\<close> itself).
\<close>

definition s_column :: "int \<Rightarrow> arith list" where
  "s_column j = map (\<lambda>i. at (at boxes i) j) (range' 9)"

definition s_block :: "int \<Rightarrow> int \<Rightarrow> arith list" where
  "s_block i0 j0 =
     concat (map (\<lambda>i. map (\<lambda>j. at (at boxes (3 * i0 + i)) (3 * j0 + j))
       (range' 3)) (range' 3))"

text \<open>The four general constraint families, added in the notebook's order.\<close>

definition s_general :: solver where
  "s_general =
     add (add (add (add Solver
       (concat (map (\<lambda>i. map (\<lambda>j.
          And [Le (IntVal 1) (at (at boxes i) j), Le (at (at boxes i) j) (IntVal 9)])
          (range' 9)) (range' 9))))
       (map (\<lambda>i. Distinct (at boxes i)) (range' 9)))
       (map (\<lambda>j. Distinct (s_column j)) (range' 9)))
       (concat (map (\<lambda>i0. map (\<lambda>j0. Distinct (s_block i0 j0)) (range' 3)) (range' 3)))"

definition board :: "int list list" where
  "board =
    [ [0, 0, 3, 0, 2, 0, 6, 0, 0],
      [9, 0, 0, 3, 0, 5, 0, 0, 1],
      [0, 0, 1, 8, 0, 6, 4, 0, 0],
      [0, 0, 8, 1, 0, 2, 9, 0, 0],
      [7, 0, 0, 0, 0, 0, 0, 0, 8],
      [0, 0, 6, 7, 0, 8, 2, 0, 0],
      [0, 0, 2, 6, 0, 9, 5, 0, 0],
      [8, 0, 0, 2, 0, 3, 0, 0, 9],
      [0, 0, 5, 0, 1, 0, 3, 0, 0] ]"

text \<open>
  The puzzle-specific constraints as the notebook writes them: one \<^verbatim>\<open>If\<close> per cell,
  guarded by the Python comparison \<^verbatim>\<open>board[i][j] == 0\<close>.
\<close>

definition s_given :: "int list list \<Rightarrow> formula list" where
  "s_given b =
     concat (map (\<lambda>i. map (\<lambda>j.
       If (BoolVal (at (at b i) j = 0))
          (BoolVal True)
          (Eq (at (at boxes i) j) (IntVal (at (at b i) j))))
       (range' 9)) (range' 9))"

definition s_solver_of :: "int list list \<Rightarrow> solver" where
  "s_solver_of b = add s_general (s_given b)"

definition s_solver :: solver where
  "s_solver = s_solver_of board"

text \<open>
  The other form of the puzzle-specific constraints, following the specification's
  words: a fixing constraint \<open>cell == v\<close> for every cell with a nonzero given value, and
  nothing at all for a blank cell.
\<close>

definition s_given_omit :: "int list list \<Rightarrow> formula list" where
  "s_given_omit b =
     concat (map (\<lambda>i. concat (map (\<lambda>j.
       if at (at b i) j = 0 then []
       else [Eq (at (at boxes i) j) (IntVal (at (at b i) j))])
       (range' 9))) (range' 9))"

definition s_solver_omit :: "int list list \<Rightarrow> solver" where
  "s_solver_omit b = add s_general (s_given_omit b)"

section \<open>Checking and decoding\<close>

text \<open>
  The solver itself is outside the notebook: \<^verbatim>\<open>check()\<close> hands back one of three
  verdicts, and \<^verbatim>\<open>model()\<close> an assignment. Both are parameters of the flows below.
  The solver library's verdict class defines \<^verbatim>\<open>__eq__\<close>, \<^verbatim>\<open>__ne__\<close> and \<^verbatim>\<open>__repr__\<close>
  and neither \<^verbatim>\<open>__bool__\<close> nor \<^verbatim>\<open>__len__\<close>, so Python's truth test of a verdict
  object, which is what a bare \<^verbatim>\<open>assert v\<close> performs, succeeds for every verdict.
\<close>

datatype CheckSatResult = sat | unsat | unknown

datatype py_error = AssertionError string

definition truth :: "CheckSatResult \<Rightarrow> bool" where
  "truth v = True"

text \<open>The guards of the four flows, as each \<^verbatim>\<open>assert\<close> states its condition.\<close>

definition ca_guard :: "CheckSatResult \<Rightarrow> bool" where
  "ca_guard v = (v = sat)"

definition mc_guard :: "CheckSatResult \<Rightarrow> bool" where
  "mc_guard v = (v = sat)"

definition nq_guard :: "CheckSatResult \<Rightarrow> bool" where
  "nq_guard v = truth v"

definition s_guard :: "CheckSatResult \<Rightarrow> bool" where
  "s_guard v = (v = sat)"

text \<open>
  The cryptarithmetic flow prints the digits of TWO twice and those of FOUR; the result
  here is the three rows of values read from the model.
\<close>

definition ca_flow :: "CheckSatResult \<Rightarrow> model \<Rightarrow> py_error + int list list" where
  "ca_flow v m =
     (if ca_guard v then
        Inr ([eval m (at z3_vars 2), eval m (at z3_vars (- 1)), eval m (at z3_vars 0)] #
             [eval m (at z3_vars 2), eval m (at z3_vars (- 1)), eval m (at z3_vars 0)] #
             [eval m F, eval m (at z3_vars 0), eval m (at z3_vars (- 2)),
              eval m (at z3_vars 1)] # [])
      else Inl (AssertionError
        ''Uh oh...the solver did not find a solution. Check your constraints.''))"

text \<open>
  The map-coloring flow looks each region's value up in the palette; a value outside the
  palette is Python's \<^verbatim>\<open>KeyError\<close>, here \<open>None\<close> in that region's place.
\<close>

definition mc_flow :: "CheckSatResult \<Rightarrow> model \<Rightarrow> py_error + string option list" where
  "mc_flow v m =
     (if mc_guard v then
        Inr (map (\<lambda>r. colors (fmt_i (eval m r))) [WA, NT, SA, Q, NSW, V, T])
      else Inl (AssertionError
        ''Uh oh. The solver failed to find a solution. Check your constraints.''))"

text \<open>
  One round of the N-Queens timing loop: the instance is built, checked, and appended to
  \<^verbatim>\<open>solutions\<close>; no model is read.
\<close>

definition nq_flow :: "CheckSatResult \<Rightarrow> int \<Rightarrow> solver list \<Rightarrow> py_error + solver list" where
  "nq_flow v N solutions =
     (let nq_solver = nqueens N
      in if nq_guard v then Inr (solutions @ [nq_solver])
         else Inl (AssertionError
           ''Uh oh...The solver failed to find a solution. Check your constraints.''))"

text \<open>The Sudoku flow prints the grid of values, row by row.\<close>

definition s_flow :: "CheckSatResult \<Rightarrow> model \<Rightarrow> py_error + int list list" where
  "s_flow v m =
     (if s_guard v then Inr (map (map (eval m)) boxes)
      else Inl (AssertionError
        ''Uh oh. The solver didn't find a solution. Check your constraints.''))"

section \<open>Reference forms and concrete assignments\<close>

text \<open>
  The diagonal constraints without the guard: the conjunction
  \<^verbatim>\<open>And(Q[i] - Q[j] != i - j, Q[i] - Q[j] != j - i)\<close> for every pair \<open>j < i\<close>.
\<close>

definition diag_unguarded :: "int \<Rightarrow> arith list \<Rightarrow> formula list" where
  "diag_unguarded N Qs =
     concat (map (\<lambda>i. map (\<lambda>j.
       And [Ne (Sub (at Qs i) (at Qs j)) (IntVal (i - j)),
            Ne (Sub (at Qs i) (at Qs j)) (IntVal (j - i))])
       (range' i)) (range' N))"

text \<open>The variable names that occur in a term and in an assertion.\<close>

primrec avars :: "arith \<Rightarrow> string list" where
  "avars (Int' x) = [x]"
| "avars (IntVal n) = []"
| "avars (Add a b) = avars a @ avars b"
| "avars (Sub a b) = avars a @ avars b"
| "avars (Mul a b) = avars a @ avars b"

fun fvars :: "formula \<Rightarrow> string list" where
  "fvars (BoolVal b) = []"
| "fvars (Le a b) = avars a @ avars b"
| "fvars (Eq a b) = avars a @ avars b"
| "fvars (Ne a b) = avars a @ avars b"
| "fvars (And fs) = concat (map fvars fs)"
| "fvars (Distinct es) = concat (map avars es)"
| "fvars (If c a b) = fvars c @ fvars a @ fvars b"

text \<open>
  The assignment the notebook prints for the cryptarithmetic puzzle, 693 + 693 = 1386,
  with the carries the column equations force.
\<close>

definition m_notebook :: model where
  "m_notebook x =
     (if x = ''F'' then 1 else if x = ''O'' then 3 else if x = ''R'' then 6
      else if x = ''T'' then 6 else if x = ''U'' then 8 else if x = ''W'' then 9
      else if x = ''carry_1'' then 0 else if x = ''carry_2'' then 1
      else if x = ''carry_3'' then 1 else 0)"

text \<open>The colouring the notebook prints, and one where neighbours share a colour.\<close>

definition m_coloring :: model where
  "m_coloring x =
     (if x = ''WA'' then 0 else if x = ''NT'' then 1 else if x = ''SA'' then 2
      else if x = ''Q'' then 0 else if x = ''NSW'' then 1 else if x = ''V'' then 0
      else if x = ''T'' then 0 else 0)"

definition m_clash :: model where
  "m_clash x =
     (if x = ''WA'' then 0 else if x = ''NT'' then 1 else if x = ''SA'' then 2
      else if x = ''Q'' then 0 else if x = ''NSW'' then 0 else if x = ''V'' then 2
      else if x = ''T'' then 0 else 0)"

text \<open>A placement of four queens: rows 2, 4, 1, 3.\<close>

definition m_queens4 :: model where
  "m_queens4 x =
     (if x = ''Q_1'' then 2 else if x = ''Q_2'' then 4 else if x = ''Q_3'' then 1
      else if x = ''Q_4'' then 3 else 0)"

text \<open>The grid the notebook prints for its board, read as an assignment of the cells.\<close>

definition solution :: "int list list" where
  "solution =
    [ [4, 8, 3, 9, 2, 1, 6, 5, 7],
      [9, 6, 7, 3, 4, 5, 8, 2, 1],
      [2, 5, 1, 8, 7, 6, 4, 9, 3],
      [5, 4, 8, 1, 3, 2, 9, 7, 6],
      [7, 2, 9, 5, 6, 4, 1, 3, 8],
      [1, 3, 6, 7, 9, 8, 2, 4, 5],
      [3, 7, 2, 6, 8, 9, 5, 1, 4],
      [8, 1, 4, 2, 5, 3, 7, 6, 9],
      [6, 9, 5, 4, 1, 7, 3, 8, 2] ]"

definition m_sudoku :: model where
  "m_sudoku x =
     (case x of
        [r, c] \<Rightarrow> at (at solution (of_char r - 65)) (of_char c - 49)
      | _ \<Rightarrow> 0)"

section \<open>Ranges and comprehensions\<close>

lemma set_range': "set (range' n) = {0..n - 1}"
  by (simp add: range'_def)

lemma length_range': "length (range' n) = nat n"
  by (simp add: range'_def)

lemma distinct_range': "distinct (range' n)"
  by (simp add: range'_def)

lemma range'_less: "j \<in> set (range' i) \<Longrightarrow> j < i"
  by (simp add: set_range')

lemma range'_3: "range' 3 = [0, 1, 2]"
  by code_simp

lemma range'_9: "range' 9 = [0, 1, 2, 3, 4, 5, 6, 7, 8]"
  by code_simp

lemma at_map_range':
  assumes "0 \<le> i" "i < n"
  shows "at (map f (range' n)) i = f i"
  using assms by (simp add: at_def range'_def)

lemma list_all_for:
  "list_all P (map f (range' n)) \<longleftrightarrow> (\<forall>i\<in>{0..n - 1}. P (f i))"
  by (simp add: list_all_iff set_range')

lemma list_all_for_for:
  "list_all P (concat (map (\<lambda>i. map (f i) (range' a)) (range' b))) \<longleftrightarrow>
     (\<forall>i\<in>{0..b - 1}. \<forall>j\<in>{0..a - 1}. P (f i j))"
  by (simp add: list_all_iff set_range')

section \<open>Cryptarithmetic\<close>

text \<open>The constraint list of \<open>ca_solver\<close>, as conditions on a model.\<close>

lemma ca_solver_models:
  "models m ca_solver \<longleftrightarrow>
     (0 \<le> m ''F'' \<and> m ''F'' \<le> 9) \<and> (0 \<le> m ''O'' \<and> m ''O'' \<le> 9) \<and>
     (0 \<le> m ''R'' \<and> m ''R'' \<le> 9) \<and> (0 \<le> m ''T'' \<and> m ''T'' \<le> 9) \<and>
     (0 \<le> m ''U'' \<and> m ''U'' \<le> 9) \<and> (0 \<le> m ''W'' \<and> m ''W'' \<le> 9) \<and>
     m ''T'' \<noteq> 0 \<and> m ''F'' \<noteq> 0 \<and>
     m ''T'' \<noteq> m ''W'' \<and> m ''W'' \<noteq> m ''O'' \<and> m ''F'' \<noteq> m ''O'' \<and>
     m ''O'' \<noteq> m ''U'' \<and> m ''U'' \<noteq> m ''R'' \<and>
     m ''O'' * 1 + m ''O'' * 1 = m ''R'' + m ''carry_1'' * 10 \<and>
     m ''carry_1'' * 10 + m ''W'' * 10 + m ''W'' * 10 = m ''U'' * 10 + m ''carry_2'' * 100 \<and>
     m ''carry_2'' * 100 + (m ''T'' + m ''T'') * 100 = m ''O'' * 100 + m ''carry_3'' * 1000 \<and>
     m ''carry_3'' = m ''F''"
  by (simp add: ca_solver_def ca_columns_def ca_assumptions_def ca_domains_def add_def
      Solver_def models_def z3_vars_def variables_def at_def F_def carry_1_def carry_2_def
      carry_3_def)


lemma m_notebook_model: "models m_notebook ca_solver"
  by (simp add: ca_solver_models m_notebook_def)

text \<open>
  C3. Every model of the cryptarithmetic instance satisfies the puzzle's equation
  exactly, \<open>2 * (100 * T + 10 * W + O) = 1000 * F + 100 * O + 10 * U + R\<close>, and has no
  leading zero: \<open>T \<noteq> 0\<close> and \<open>F \<noteq> 0\<close>.
\<close>

theorem ca_equation_and_leading_digits:
  assumes "models m ca_solver"
  shows "2 * (100 * m ''T'' + 10 * m ''W'' + m ''O'')
           = 1000 * m ''F'' + 100 * m ''O'' + 10 * m ''U'' + m ''R''
         \<and> m ''T'' \<noteq> 0 \<and> m ''F'' \<noteq> 0"
  using assms unfolding ca_solver_models by auto

theorem ca_equation_and_leading_digits_witness:
  "models m_notebook ca_solver \<and>
   2 * (100 * m_notebook ''T'' + 10 * m_notebook ''W'' + m_notebook ''O'')
     = 1000 * m_notebook ''F'' + 100 * m_notebook ''O'' + 10 * m_notebook ''U''
       + m_notebook ''R''
   \<and> m_notebook ''T'' \<noteq> 0 \<and> m_notebook ''F'' \<noteq> 0"
  using ca_equation_and_leading_digits [OF m_notebook_model] m_notebook_model by simp

text \<open>
  C8. In every model of the carry-chain encoding each of the three carries has a value
  in \<open>[0, 9]\<close>. The notebook declares no range for the carries; the column equations
  and the letters' ranges force it.
\<close>

theorem ca_carries_in_domain:
  assumes "models m ca_solver"
  shows "(0 \<le> m ''carry_1'' \<and> m ''carry_1'' \<le> 9) \<and>
         (0 \<le> m ''carry_2'' \<and> m ''carry_2'' \<le> 9) \<and>
         (0 \<le> m ''carry_3'' \<and> m ''carry_3'' \<le> 9)"
  using assms unfolding ca_solver_models by auto

theorem ca_carries_in_domain_witness:
  "models m_notebook ca_solver \<and>
   (0 \<le> m_notebook ''carry_1'' \<and> m_notebook ''carry_1'' \<le> 9) \<and>
   (0 \<le> m_notebook ''carry_2'' \<and> m_notebook ''carry_2'' \<le> 9) \<and>
   (0 \<le> m_notebook ''carry_3'' \<and> m_notebook ''carry_3'' \<le> 9)"
  using ca_carries_in_domain [OF m_notebook_model] m_notebook_model by simp

text \<open>
  C1. The six letters take pairwise distinct values in every model. The instance does
  not ensure it: the assignment the notebook itself prints, \<open>693 + 693 = 1386\<close>, is a
  model, and it gives \<open>T\<close> and \<open>R\<close> the same digit 6.
\<close>

theorem ca_letters_not_all_distinct:
  "models m_notebook ca_solver \<and>
   \<not> distinct (map m_notebook [''F'', ''O'', ''R'', ''T'', ''U'', ''W'']) \<and>
   m_notebook ''T'' = m_notebook ''R''"
  by (simp add: ca_solver_models m_notebook_def)

section \<open>Map coloring\<close>

lemma mc_solver_models:
  "models m mc_solver \<longleftrightarrow>
     (0 \<le> m ''WA'' \<and> m ''WA'' \<le> 2) \<and> (0 \<le> m ''SA'' \<and> m ''SA'' \<le> 2) \<and>
     (0 \<le> m ''NT'' \<and> m ''NT'' \<le> 2) \<and> (0 \<le> m ''Q'' \<and> m ''Q'' \<le> 2) \<and>
     (0 \<le> m ''NSW'' \<and> m ''NSW'' \<le> 2) \<and> (0 \<le> m ''V'' \<and> m ''V'' \<le> 2) \<and>
     (0 \<le> m ''T'' \<and> m ''T'' \<le> 2) \<and>
     m ''WA'' \<noteq> m ''SA'' \<and> m ''WA'' \<noteq> m ''NT'' \<and> m ''NT'' \<noteq> m ''SA'' \<and>
     m ''Q'' \<noteq> m ''NT'' \<and> m ''NSW'' \<noteq> m ''SA'' \<and> m ''SA'' \<noteq> m ''Q'' \<and>
     m ''NSW'' \<noteq> m ''V''"
  by (auto simp add: mc_solver_def mc_adjacent_def mc_domains_def add_def Solver_def
      models_def WA_def SA_def NT_def Q_def NSW_def V_def T_def)

lemma m_coloring_model: "models m_coloring mc_solver"
  by (simp add: mc_solver_models m_coloring_def)

text \<open>
  C2. Every pair of adjacent regions of the Australia map gets different colours in
  every model. The instance lacks the pairs Q-NSW and SA-V: the assignment \<open>m_clash\<close>
  is a model, and in it Queensland and New South Wales share colour 0 while South
  Australia and Victoria share colour 2.
\<close>

theorem mc_adjacent_regions_clash:
  "models m_clash mc_solver \<and>
   m_clash ''Q'' = m_clash ''NSW'' \<and> m_clash ''SA'' = m_clash ''V''"
  by (simp add: mc_solver_models m_clash_def)

text \<open>
  C10. Tasmania's variable occurs in no assertion of the map-coloring instance other
  than its two range bounds, and changing its value to any colour index in
  \<open>{0, 1, 2}\<close> turns a model into a model.
\<close>

theorem mc_T_independent:
  "filter (\<lambda>f. ''T'' \<in> set (fvars f)) mc_solver = [Le (IntVal 0) T, Le T (IntVal 2)] \<and>
   (models m mc_solver \<and> c \<in> {0, 1, 2} \<longrightarrow> models (m(''T'' := c)) mc_solver)"
proof
  show "filter (\<lambda>f. ''T'' \<in> set (fvars f)) mc_solver = [Le (IntVal 0) T, Le T (IntVal 2)]"
    by (simp add: mc_solver_def mc_adjacent_def mc_domains_def add_def Solver_def
        WA_def SA_def NT_def Q_def NSW_def V_def T_def)
  show "models m mc_solver \<and> c \<in> {0, 1, 2} \<longrightarrow> models (m(''T'' := c)) mc_solver"
    unfolding mc_solver_models by auto
qed

theorem mc_T_independent_witness:
  "models m_coloring mc_solver \<and> (2::int) \<in> {0, 1, 2} \<and>
   models (m_coloring(''T'' := 2)) mc_solver \<and>
   filter (\<lambda>f. ''T'' \<in> set (fvars f)) mc_solver = [Le (IntVal 0) T, Le T (IntVal 2)]"
  using mc_T_independent [of m_coloring 2] m_coloring_model by simp

section \<open>N-Queens\<close>

lemma at_nqueens_Q:
  assumes "0 \<le> i" "i < N"
  shows "at (nqueens_Q N) i = Int' (''Q_'' @ fmt_i (i + 1))"
  using assms by (simp add: nqueens_Q_def at_map_range')

lemma val_c_holds:
  "list_all (holds m) (val_c N (nqueens_Q N)) \<longleftrightarrow>
     (\<forall>i\<in>{0..N - 1}. 1 \<le> m (''Q_'' @ fmt_i (i + 1)) \<and> m (''Q_'' @ fmt_i (i + 1)) \<le> N)"
  by (auto simp add: val_c_def list_all_iff set_range' at_nqueens_Q)

lemma col_c_holds:
  "list_all (holds m) (col_c (nqueens_Q N)) \<longleftrightarrow>
     inj_on (\<lambda>i. m (''Q_'' @ fmt_i (i + 1))) {0..N - 1}"
  by (simp add: col_c_def nqueens_Q_def distinct_map distinct_range' set_range' comp_def)

lemma diag_c_holds:
  "list_all (holds m) (diag_c N Qs) \<longleftrightarrow>
     (\<forall>i\<in>{0..N - 1}. \<forall>j\<in>{0..i - 1}.
        eval m (at Qs i) - eval m (at Qs j) \<noteq> i - j \<and>
        eval m (at Qs i) - eval m (at Qs j) \<noteq> j - i)"
  by (auto simp add: diag_c_def list_all_iff set_range')

lemma nqueens_models:
  "models m (nqueens N) \<longleftrightarrow>
     (\<forall>i\<in>{0..N - 1}. 1 \<le> m (''Q_'' @ fmt_i (i + 1)) \<and> m (''Q_'' @ fmt_i (i + 1)) \<le> N) \<and>
     inj_on (\<lambda>i. m (''Q_'' @ fmt_i (i + 1))) {0..N - 1} \<and>
     (\<forall>i\<in>{0..N - 1}. \<forall>j\<in>{0..i - 1}.
        m (''Q_'' @ fmt_i (i + 1)) - m (''Q_'' @ fmt_i (j + 1)) \<noteq> i - j \<and>
        m (''Q_'' @ fmt_i (i + 1)) - m (''Q_'' @ fmt_i (j + 1)) \<noteq> j - i)"
proof -
  have "list_all (holds m) (diag_c N (nqueens_Q N)) \<longleftrightarrow>
     (\<forall>i\<in>{0..N - 1}. \<forall>j\<in>{0..i - 1}.
        m (''Q_'' @ fmt_i (i + 1)) - m (''Q_'' @ fmt_i (j + 1)) \<noteq> i - j \<and>
        m (''Q_'' @ fmt_i (i + 1)) - m (''Q_'' @ fmt_i (j + 1)) \<noteq> j - i)"
    unfolding diag_c_holds by (auto simp add: at_nqueens_Q)
  then show ?thesis
    by (simp only: nqueens_def models_def add_def Solver_def Let_def list_all_append
        append_Nil val_c_holds col_c_holds)
qed

text \<open>The same conditions with the queens numbered as their variables are, from 1.\<close>

lemma nqueens_rows:
  assumes "models m (nqueens N)"
  shows "(\<forall>i\<in>{1..N}. 1 \<le> m (''Q_'' @ fmt_i i) \<and> m (''Q_'' @ fmt_i i) \<le> N) \<and>
         (\<forall>i\<in>{1..N}. \<forall>j\<in>{1..N}. i \<noteq> j \<longrightarrow> m (''Q_'' @ fmt_i i) \<noteq> m (''Q_'' @ fmt_i j)) \<and>
         (\<forall>i\<in>{1..N}. \<forall>j\<in>{1..N}. i < j \<longrightarrow>
            \<bar>m (''Q_'' @ fmt_i i) - m (''Q_'' @ fmt_i j)\<bar> \<noteq> j - i)"
proof -
  let ?q = "\<lambda>i. m (''Q_'' @ fmt_i i)"
  from assms have
    val: "\<forall>i\<in>{0..N - 1}. 1 \<le> ?q (i + 1) \<and> ?q (i + 1) \<le> N" and
    inj: "inj_on (\<lambda>i. ?q (i + 1)) {0..N - 1}" and
    diag: "\<forall>i\<in>{0..N - 1}. \<forall>j\<in>{0..i - 1}.
             ?q (i + 1) - ?q (j + 1) \<noteq> i - j \<and> ?q (i + 1) - ?q (j + 1) \<noteq> j - i"
    unfolding nqueens_models by blast+
  have shift: "i - 1 \<in> {0..N - 1}" if "i \<in> {1..N}" for i
    using that by simp
  have a: "1 \<le> ?q i \<and> ?q i \<le> N" if "i \<in> {1..N}" for i
    using bspec [OF val shift [OF that]] by simp
  have b: "?q i \<noteq> ?q j" if "i \<in> {1..N}" "j \<in> {1..N}" "i \<noteq> j" for i j
  proof
    assume "?q i = ?q j"
    then have "?q ((i - 1) + 1) = ?q ((j - 1) + 1)" by simp
    with inj shift [OF that(1)] shift [OF that(2)] have "i - 1 = j - 1"
      unfolding inj_on_def by blast
    with that(3) show False by simp
  qed
  have c: "\<bar>?q i - ?q j\<bar> \<noteq> j - i" if "i \<in> {1..N}" "j \<in> {1..N}" "i < j" for i j
  proof -
    have "i - 1 \<in> {0..(j - 1) - 1}" using that by simp
    with diag shift [OF that(2)]
    have "?q ((j - 1) + 1) - ?q ((i - 1) + 1) \<noteq> (j - 1) - (i - 1) \<and>
          ?q ((j - 1) + 1) - ?q ((i - 1) + 1) \<noteq> (i - 1) - (j - 1)"
      by blast
    then show ?thesis by (simp add: abs_if)
  qed
  from a b c show ?thesis by blast
qed

lemma m_queens4_model: "models m_queens4 (nqueens 4)"
  by code_simp

text \<open>
  C4. For every \<open>N \<ge> 4\<close> and every model of \<open>nqueens N\<close>: each \<open>Q_i\<close> lies in
  \<open>[1, N]\<close>, the values of \<open>Q_1\<close>, ..., \<open>Q_N\<close> are pairwise distinct, and for every pair
  of columns \<open>i < j\<close> the rows differ by something other than \<open>j - i\<close>.
\<close>

theorem nqueens_sound:
  assumes "4 \<le> N" and "models m (nqueens N)"
  shows "(\<forall>i\<in>{1..N}. 1 \<le> m (''Q_'' @ fmt_i i) \<and> m (''Q_'' @ fmt_i i) \<le> N) \<and>
         (\<forall>i\<in>{1..N}. \<forall>j\<in>{1..N}. i \<noteq> j \<longrightarrow> m (''Q_'' @ fmt_i i) \<noteq> m (''Q_'' @ fmt_i j)) \<and>
         (\<forall>i\<in>{1..N}. \<forall>j\<in>{1..N}. i < j \<longrightarrow>
            \<bar>m (''Q_'' @ fmt_i i) - m (''Q_'' @ fmt_i j)\<bar> \<noteq> j - i)"
  using assms(2) by (rule nqueens_rows)

theorem nqueens_sound_witness:
  "(4::int) \<le> 4 \<and> models m_queens4 (nqueens 4) \<and>
   (1 \<le> m_queens4 (''Q_'' @ fmt_i 2) \<and> m_queens4 (''Q_'' @ fmt_i 2) \<le> 4) \<and>
   m_queens4 (''Q_'' @ fmt_i 2) \<noteq> m_queens4 (''Q_'' @ fmt_i 4) \<and>
   \<bar>m_queens4 (''Q_'' @ fmt_i 2) - m_queens4 (''Q_'' @ fmt_i 4)\<bar> \<noteq> 4 - 2"
proof -
  have h: "(4::int) \<le> 4" by simp
  note r = nqueens_sound [OF h m_queens4_model]
  have a: "1 \<le> m_queens4 (''Q_'' @ fmt_i 2) \<and> m_queens4 (''Q_'' @ fmt_i 2) \<le> 4"
    using bspec [OF conjunct1 [OF r], of 2] by simp
  have b: "m_queens4 (''Q_'' @ fmt_i 2) \<noteq> m_queens4 (''Q_'' @ fmt_i 4)"
    using bspec [OF bspec [OF conjunct1 [OF conjunct2 [OF r]], of 2], of 4] by simp
  have c: "\<bar>m_queens4 (''Q_'' @ fmt_i 2) - m_queens4 (''Q_'' @ fmt_i 4)\<bar> \<noteq> 4 - 2"
    using bspec [OF bspec [OF conjunct2 [OF conjunct2 [OF r]], of 2], of 4] by simp
  from h m_queens4_model a b c show ?thesis
    by blast
qed

lemma diag_c_unguarded:
  "diag_c N Qs = map (\<lambda>f. If (BoolVal False) (BoolVal True) f) (diag_unguarded N Qs)"
  unfolding diag_c_def diag_unguarded_def map_concat map_map comp_def
  by (intro arg_cong [where f = concat] map_cong refl) (auto dest: range'_less)

lemma diag_unguarded_holds:
  "list_all (holds m) (diag_unguarded N Qs) \<longleftrightarrow>
     (\<forall>i j. 0 \<le> j \<and> j < i \<and> i < N \<longrightarrow>
        eval m (at Qs i) - eval m (at Qs j) \<noteq> i - j \<and>
        eval m (at Qs i) - eval m (at Qs j) \<noteq> j - i)"
  by (simp add: diag_unguarded_def list_all_iff set_range') force

text \<open>
  C9. In \<open>diag_c\<close> the inner index runs over \<open>range' i\<close>, so \<open>i = j\<close> never holds: every
  guard is the literal \<open>False\<close>, the true branch is never taken, and the diagonal
  constraints have the models of the unguarded conjunctions taken over all pairs
  \<open>j < i\<close>.
\<close>

theorem diag_guard_never_true:
  "(\<forall>i\<in>set (range' N). \<forall>j\<in>set (range' i). i \<noteq> j) \<and>
   diag_c N (nqueens_Q N) =
     map (\<lambda>f. If (BoolVal False) (BoolVal True) f) (diag_unguarded N (nqueens_Q N)) \<and>
   models m (diag_c N (nqueens_Q N)) = models m (diag_unguarded N (nqueens_Q N)) \<and>
   (models m (diag_c N (nqueens_Q N)) \<longleftrightarrow>
      (\<forall>i j. 0 \<le> j \<and> j < i \<and> i < N \<longrightarrow>
         eval m (at (nqueens_Q N) i) - eval m (at (nqueens_Q N) j) \<noteq> i - j \<and>
         eval m (at (nqueens_Q N) i) - eval m (at (nqueens_Q N) j) \<noteq> j - i))"
proof -
  have a: "\<forall>i\<in>set (range' N). \<forall>j\<in>set (range' i). i \<noteq> j"
    by (auto dest: range'_less)
  have b: "models m (diag_c N (nqueens_Q N)) = models m (diag_unguarded N (nqueens_Q N))"
    by (simp add: models_def diag_c_unguarded list_all_iff)
  from a b show ?thesis
    using diag_c_unguarded [of N "nqueens_Q N"] diag_unguarded_holds [of m N "nqueens_Q N"]
    by (simp add: models_def)
qed

theorem diag_guard_never_true_witness:
  "(3::int) \<in> set (range' 4) \<and> (1::int) \<in> set (range' 3) \<and> (3::int) \<noteq> 1 \<and>
   diag_c 4 (nqueens_Q 4) =
     map (\<lambda>f. If (BoolVal False) (BoolVal True) f) (diag_unguarded 4 (nqueens_Q 4)) \<and>
   models m_queens4 (diag_c 4 (nqueens_Q 4)) \<and>
   models m_queens4 (diag_unguarded 4 (nqueens_Q 4))"
proof -
  have m: "models m_queens4 (diag_c 4 (nqueens_Q 4))"
    by code_simp
  have r: "(3::int) \<in> set (range' 4)" "(1::int) \<in> set (range' 3)"
    by (simp_all add: set_range')
  from diag_guard_never_true [of 4 m_queens4] m r show ?thesis
    by simp
qed

lemma nqueens_3_unsat: "\<not> models m (nqueens 3)"
proof
  assume "models m (nqueens 3)"
  note r = nqueens_rows [OF this]
  let ?q = "\<lambda>i. m (''Q_'' @ fmt_i i)"
  have v: "1 \<le> ?q 1 \<and> ?q 1 \<le> 3" "1 \<le> ?q 2 \<and> ?q 2 \<le> 3" "1 \<le> ?q 3 \<and> ?q 3 \<le> 3"
    using bspec [OF conjunct1 [OF r], of 1] bspec [OF conjunct1 [OF r], of 2]
      bspec [OF conjunct1 [OF r], of 3] by simp_all
  have i: "?q 1 \<noteq> ?q 2" "?q 1 \<noteq> ?q 3" "?q 2 \<noteq> ?q 3"
    using bspec [OF bspec [OF conjunct1 [OF conjunct2 [OF r]], of 1], of 2]
      bspec [OF bspec [OF conjunct1 [OF conjunct2 [OF r]], of 1], of 3]
      bspec [OF bspec [OF conjunct1 [OF conjunct2 [OF r]], of 2], of 3] by simp_all
  have d: "\<bar>?q 1 - ?q 2\<bar> \<noteq> 1" "\<bar>?q 1 - ?q 3\<bar> \<noteq> 2" "\<bar>?q 2 - ?q 3\<bar> \<noteq> 1"
    using bspec [OF bspec [OF conjunct2 [OF conjunct2 [OF r]], of 1], of 2]
      bspec [OF bspec [OF conjunct2 [OF conjunct2 [OF r]], of 1], of 3]
      bspec [OF bspec [OF conjunct2 [OF conjunct2 [OF r]], of 2], of 3] by simp_all
  from v i d show False by presburger
qed

section \<open>Sudoku\<close>

lemma int_cases_0_8:
  assumes "i \<in> {0..8::int}"
  shows "i = 0 \<or> i = 1 \<or> i = 2 \<or> i = 3 \<or> i = 4 \<or> i = 5 \<or> i = 6 \<or> i = 7 \<or> i = 8"
  using assms by auto

lemma boxes_row:
  assumes "i \<in> {0..8}"
  shows "at boxes i = map (\<lambda>j. at (at boxes i) j) (range' 9)"
  using int_cases_0_8 [OF assms]
  by (elim disjE; simp add: range'_9 at_def boxes_def rows_def cols_def)

lemma s_general_models:
  "models m s_general \<longleftrightarrow>
     (\<forall>i\<in>{0..8}. \<forall>j\<in>{0..8}.
        1 \<le> eval m (at (at boxes i) j) \<and> eval m (at (at boxes i) j) \<le> 9) \<and>
     (\<forall>i\<in>{0..8}. distinct (map (eval m) (at boxes i))) \<and>
     (\<forall>j\<in>{0..8}. distinct (map (eval m) (s_column j))) \<and>
     (\<forall>i0\<in>{0..2}. \<forall>j0\<in>{0..2}. distinct (map (eval m) (s_block i0 j0)))"
  unfolding s_general_def models_def add_def Solver_def list_all_append append_Nil
    list_all_for list_all_for_for
  by simp

lemma s_given_holds:
  "list_all (holds m) (s_given b) \<longleftrightarrow>
     (\<forall>i\<in>{0..8}. \<forall>j\<in>{0..8}.
        at (at b i) j \<noteq> 0 \<longrightarrow> eval m (at (at boxes i) j) = at (at b i) j)"
  unfolding s_given_def list_all_for_for by simp

lemma s_given_omit_holds:
  "list_all (holds m) (s_given_omit b) \<longleftrightarrow>
     (\<forall>i\<in>{0..8}. \<forall>j\<in>{0..8}.
        at (at b i) j \<noteq> 0 \<longrightarrow> eval m (at (at boxes i) j) = at (at b i) j)"
  by (simp add: s_given_omit_def list_all_iff set_range') blast

lemma s_solver_models:
  "models m s_solver \<longleftrightarrow>
     models m s_general \<and>
     (\<forall>i\<in>{0..8}. \<forall>j\<in>{0..8}.
        at (at board i) j \<noteq> 0 \<longrightarrow> eval m (at (at boxes i) j) = at (at board i) j)"
  by (simp add: s_solver_def s_solver_of_def add_def models_def s_given_holds)

lemma m_sudoku_model: "models m_sudoku s_solver"
  by code_simp

text \<open>Nine distinct values between 1 and 9 are each digit once.\<close>

lemma count_list_distinct:
  assumes "distinct xs" and "x \<in> set xs"
  shows "count_list xs x = 1"
  using assms by (induction xs) auto

lemma each_digit_once:
  assumes "distinct xs" and "length xs = 9" and "set xs \<subseteq> {1..9::int}" and "d \<in> {1..9}"
  shows "count_list xs d = 1"
proof -
  have "card (set xs) = card {1..9::int}"
    using assms(1,2) by (simp add: distinct_card)
  with assms(3) have "set xs = {1..9}"
    by (intro card_subset_eq) simp_all
  with assms(4) have "d \<in> set xs" by simp
  with assms(1) show ?thesis
    by (rule count_list_distinct)
qed

lemma s_block_cells:
  assumes "i0 \<in> {0..2}" and "j0 \<in> {0..2}" and "c \<in> set (s_block i0 j0)"
  shows "\<exists>i\<in>{0..8}. \<exists>j\<in>{0..8}. c = at (at boxes i) j"
proof -
  from assms(3) obtain i j where ij: "i \<in> {0..2}" "j \<in> {0..2}"
    and c: "c = at (at boxes (3 * i0 + i)) (3 * j0 + j)"
    by (auto simp add: s_block_def set_range')
  have "3 * i0 + i \<in> {0..8}" "3 * j0 + j \<in> {0..8}"
    using assms(1,2) ij by auto
  with c show ?thesis by blast
qed

lemma s_block_length: "length (s_block i0 j0) = 9"
  by (simp add: s_block_def range'_3)

text \<open>In a model of the general constraints every row, column and block is a permutation
  of the digits.\<close>

lemma s_general_digits:
  assumes "models m s_general" and d: "d \<in> {1..9}"
  shows "\<forall>i\<in>{0..8}. count_list (map (eval m) (at boxes i)) d = 1"
    and "\<forall>j\<in>{0..8}. count_list (map (eval m) (s_column j)) d = 1"
    and "\<forall>i0\<in>{0..2}. \<forall>j0\<in>{0..2}. count_list (map (eval m) (s_block i0 j0)) d = 1"
proof -
  from assms(1) have
    rng: "\<forall>i\<in>{0..8}. \<forall>j\<in>{0..8}.
            1 \<le> eval m (at (at boxes i) j) \<and> eval m (at (at boxes i) j) \<le> 9" and
    dr: "\<forall>i\<in>{0..8}. distinct (map (eval m) (at boxes i))" and
    dc: "\<forall>j\<in>{0..8}. distinct (map (eval m) (s_column j))" and
    db: "\<forall>i0\<in>{0..2}. \<forall>j0\<in>{0..2}. distinct (map (eval m) (s_block i0 j0))"
    unfolding s_general_models by blast+
  show "\<forall>i\<in>{0..8}. count_list (map (eval m) (at boxes i)) d = 1"
  proof
    fix i :: int assume i: "i \<in> {0..8}"
    have len: "length (map (eval m) (at boxes i)) = 9"
      by (subst boxes_row [OF i]) (simp add: length_range')
    have "set (at boxes i) = (\<lambda>j. at (at boxes i) j) ` {0..8}"
      by (subst boxes_row [OF i]) (simp add: set_range')
    with rng i have sub: "set (map (eval m) (at boxes i)) \<subseteq> {1..9}"
      by auto
    from bspec [OF dr i] len sub d show "count_list (map (eval m) (at boxes i)) d = 1"
      by (rule each_digit_once)
  qed
  show "\<forall>j\<in>{0..8}. count_list (map (eval m) (s_column j)) d = 1"
  proof
    fix j :: int assume j: "j \<in> {0..8}"
    have len: "length (map (eval m) (s_column j)) = 9"
      by (simp add: s_column_def length_range')
    from rng j have sub: "set (map (eval m) (s_column j)) \<subseteq> {1..9}"
      by (auto simp add: s_column_def set_range')
    from bspec [OF dc j] len sub d show "count_list (map (eval m) (s_column j)) d = 1"
      by (rule each_digit_once)
  qed
  show "\<forall>i0\<in>{0..2}. \<forall>j0\<in>{0..2}. count_list (map (eval m) (s_block i0 j0)) d = 1"
  proof (intro ballI)
    fix i0 j0 :: int assume i0: "i0 \<in> {0..2}" and j0: "j0 \<in> {0..2}"
    have len: "length (map (eval m) (s_block i0 j0)) = 9"
      by (simp add: s_block_length)
    have sub: "set (map (eval m) (s_block i0 j0)) \<subseteq> {1..9}"
    proof
      fix v assume "v \<in> set (map (eval m) (s_block i0 j0))"
      then obtain c where "c \<in> set (s_block i0 j0)" and v: "v = eval m c"
        by auto
      from s_block_cells [OF i0 j0 this(1)] obtain i j
        where "i \<in> {0..8}" "j \<in> {0..8}" "c = at (at boxes i) j"
        by blast
      with rng v show "v \<in> {1..9}" by auto
    qed
    from bspec [OF bspec [OF db i0] j0] len sub d
    show "count_list (map (eval m) (s_block i0 j0)) d = 1"
      by (rule each_digit_once)
  qed
qed

text \<open>
  The rows, columns and blocks the instance constrains, cell by cell: row \<open>i\<close> is the
  cells \<open>boxes[i][j]\<close>, column \<open>j\<close> the cells \<open>boxes[i][j]\<close> with \<open>i\<close> running, and block
  \<open>(i0, j0)\<close> the cells \<open>boxes[3 * i0 + i][3 * j0 + j]\<close> for \<open>i\<close>, \<open>j\<close> below 3.
\<close>

lemma range'_9_upto: "range' 9 = [0..8]"
  by (simp add: range'_def)

lemma range'_3_upto: "range' 3 = [0..2]"
  by (simp add: range'_def)

lemma row_cells:
  assumes "i \<in> {0..8}"
  shows "map (eval m) (at boxes i) = map (\<lambda>j. eval m (at (at boxes i) j)) [0..8]"
  by (subst boxes_row [OF assms]) (simp add: range'_9_upto)

lemma column_cells:
  "map (eval m) (s_column j) = map (\<lambda>i. eval m (at (at boxes i) j)) [0..8]"
  by (simp add: s_column_def range'_9_upto)

lemma block_cells:
  "map (eval m) (s_block i0 j0) =
     concat (map (\<lambda>i. map (\<lambda>j. eval m (at (at boxes (3 * i0 + i)) (3 * j0 + j))) [0..2])
       [0..2])"
  by (simp add: s_block_def range'_3_upto map_concat comp_def)

text \<open>
  C5. For the notebook's board, every model of the Sudoku instance gives each cell with
  a nonzero given value exactly that value, and in every row, every column and every
  3-by-3 block each of the digits 1 to 9 occurs exactly once. Rows, columns and blocks
  are written out by their cells.
\<close>

theorem sudoku_sound:
  assumes "models m s_solver"
  shows "(\<forall>i\<in>{0..8}. \<forall>j\<in>{0..8}.
            at (at board i) j \<noteq> 0 \<longrightarrow> eval m (at (at boxes i) j) = at (at board i) j) \<and>
         (\<forall>d\<in>{1..9}.
            (\<forall>i\<in>{0..8}.
               count_list (map (\<lambda>j. eval m (at (at boxes i) j)) [0..8]) d = 1) \<and>
            (\<forall>j\<in>{0..8}.
               count_list (map (\<lambda>i. eval m (at (at boxes i) j)) [0..8]) d = 1) \<and>
            (\<forall>i0\<in>{0..2}. \<forall>j0\<in>{0..2}.
               count_list (concat (map (\<lambda>i. map (\<lambda>j.
                 eval m (at (at boxes (3 * i0 + i)) (3 * j0 + j))) [0..2]) [0..2])) d = 1))"
proof -
  from assms have g: "models m s_general" and
    f: "\<forall>i\<in>{0..8}. \<forall>j\<in>{0..8}.
          at (at board i) j \<noteq> 0 \<longrightarrow> eval m (at (at boxes i) j) = at (at board i) j"
    unfolding s_solver_models by blast+
  have r: "\<forall>i\<in>{0..8}. count_list (map (\<lambda>j. eval m (at (at boxes i) j)) [0..8]) d = 1"
    if "d \<in> {1..9}" for d
    using s_general_digits(1) [OF g that] by (simp add: row_cells)
  have c: "\<forall>j\<in>{0..8}. count_list (map (\<lambda>i. eval m (at (at boxes i) j)) [0..8]) d = 1"
    if "d \<in> {1..9}" for d
    using s_general_digits(2) [OF g that] by (simp only: column_cells)
  have b: "\<forall>i0\<in>{0..2}. \<forall>j0\<in>{0..2}.
             count_list (concat (map (\<lambda>i. map (\<lambda>j.
               eval m (at (at boxes (3 * i0 + i)) (3 * j0 + j))) [0..2]) [0..2])) d = 1"
    if "d \<in> {1..9}" for d
    using s_general_digits(3) [OF g that] by (simp only: block_cells)
  from f r c b show ?thesis
    by blast
qed

theorem sudoku_sound_witness:
  "models m_sudoku s_solver \<and>
   at (at boxes 0) 2 = Int' ''A3'' \<and>
   at (at board 0) 2 = 3 \<and> eval m_sudoku (at (at boxes 0) 2) = 3 \<and>
   count_list (map (\<lambda>j. eval m_sudoku (at (at boxes 0) j)) [0..8]) 5 = 1 \<and>
   count_list (map (\<lambda>i. eval m_sudoku (at (at boxes i) 0)) [0..8]) 5 = 1 \<and>
   count_list (concat (map (\<lambda>i. map (\<lambda>j.
     eval m_sudoku (at (at boxes (3 * 1 + i)) (3 * 1 + j))) [0..2]) [0..2])) 5 = 1"
proof -
  note r = sudoku_sound [OF m_sudoku_model]
  have g: "at (at board 0) 2 = 3"
    by (simp add: board_def at_def)
  have a: "eval m_sudoku (at (at boxes 0) 2) = 3"
    using bspec [OF bspec [OF conjunct1 [OF r], of 0], of 2] g by simp
  have five: "(5::int) \<in> {1..9}" and zero: "(0::int) \<in> {0..8}" and one: "(1::int) \<in> {0..2}"
    by simp_all
  note d = bspec [OF conjunct2 [OF r] five]
  note b = bspec [OF conjunct1 [OF d] zero]
  note c = bspec [OF conjunct1 [OF conjunct2 [OF d]] zero]
  note e = bspec [OF bspec [OF conjunct2 [OF conjunct2 [OF d]] one] one]
  have n: "at (at boxes 0) 2 = Int' ''A3''"
    by (simp add: boxes_def rows_def cols_def at_def)
  from m_sudoku_model n g a b c e show ?thesis
    by blast
qed

text \<open>
  C7. The instance with one \<^verbatim>\<open>If(board[i][j] == 0, True, boxes[i][j] == board[i][j])\<close>
  per cell has exactly the models of the instance that adds
  \<^verbatim>\<open>boxes[i][j] == board[i][j]\<close> for the cells with a nonzero given value only and
  nothing for the blank ones. This holds for every 9-by-9 board, the notebook's among
  them.
\<close>

theorem s_given_forms_equivalent:
  assumes "length b = 9" and "list_all (\<lambda>r. length r = 9) b"
  shows "{m. models m (s_solver_of b)} = {m. models m (s_solver_omit b)}"
  by (simp add: s_solver_of_def s_solver_omit_def models_def add_def s_given_holds
      s_given_omit_holds)

theorem s_given_forms_equivalent_witness:
  "length board = 9 \<and> list_all (\<lambda>r. length r = 9) board \<and>
   m_sudoku \<in> {m. models m (s_solver_of board)} \<and>
   m_sudoku \<in> {m. models m (s_solver_omit board)} \<and>
   length (s_given board) = 81 \<and> length (s_given_omit board) = 32"
proof -
  have h1: "length board = 9" and h2: "list_all (\<lambda>r. length r = 9) board"
    by (simp_all add: board_def)
  have a: "m_sudoku \<in> {m. models m (s_solver_of board)}"
    using m_sudoku_model by (simp add: s_solver_def)
  have l: "length (s_given board) = 81" "length (s_given_omit board) = 32"
    by code_simp+
  from a s_given_forms_equivalent [OF h1 h2] h1 h2 l show ?thesis
    by simp
qed

section \<open>The guards before decoding\<close>

text \<open>
  C6. In every flow the guard before the decode step passes for the verdict \<open>sat\<close> and
  fails for every other verdict. The cryptarithmetic, map-coloring and Sudoku guards
  compare the verdict with \<open>sat\<close> and do so. The N-Queens guard tests the verdict
  object's truth value instead, which every verdict has: on the three-queens instance,
  which has no model, the verdict \<open>unsat\<close> passes the guard and the instance is appended
  to the solutions.
\<close>

theorem nq_guard_passes_every_verdict:
  "(\<forall>m. \<not> models m (nqueens 3)) \<and>
   nq_guard unsat \<and> nq_guard unknown \<and> nq_guard sat \<and>
   nq_flow unsat 3 [] = Inr [nqueens 3] \<and>
   ca_guard sat \<and> \<not> ca_guard unsat \<and> \<not> ca_guard unknown \<and>
   mc_guard sat \<and> \<not> mc_guard unsat \<and> \<not> mc_guard unknown \<and>
   s_guard sat \<and> \<not> s_guard unsat \<and> \<not> s_guard unknown"
  using nqueens_3_unsat
  by (simp add: nq_guard_def truth_def nq_flow_def ca_guard_def mc_guard_def s_guard_def)

end
